theory Spec2Isabelle
  imports Complex_Main "HOL-Library.Word" "HOL-Library.Signed_Division"
begin

unbundle bit_operations_syntax

section \<open>Motion support for the hand-mounted MPU-6050: data model\<close>

text \<open>
  The development embeds \<^verbatim>\<open>support_motion_mpu6050_hand.h\<close>. The globals of the file
  become the fields of one state record, every function becomes a transformer of that
  state, and every call that leaves the file (sensor driver, interrupt controller,
  observer callback, packet transport) is appended to a chronological trace.

  \<^verbatim>\<open>VectorInt16\<close> has the fields \<^verbatim>\<open>x\<close>, \<^verbatim>\<open>y\<close>, \<^verbatim>\<open>z\<close>, each an \<^verbatim>\<open>int16_t\<close>. They are
  called \<open>vx\<close>, \<open>vy\<close>, \<open>vz\<close> here, because a record field is a constant of the theory and
  the one-letter names would capture the variables of every statement below. An
  \<^verbatim>\<open>int16_t\<close> is a \<open>16 word\<close> read through \<open>sint\<close>.
\<close>

type_synonym int16_t = "16 word"
type_synonym uint8_t = "8 word"

record VectorInt16 =
  vx :: int16_t
  vy :: int16_t
  vz :: int16_t

text \<open>
  The packet header macros (\<^verbatim>\<open>KG_PACKET_TYPE_EVENT\<close>, \<^verbatim>\<open>KG_PACKET_CLASS_MOTION\<close>,
  \<^verbatim>\<open>KG_PACKET_ID_EVT_MOTION_MODE\<close>, \<^verbatim>\<open>KG_PACKET_ID_EVT_MOTION_DATA\<close>) are defined
  outside the file; their numeric values play no role, so they are kept symbolic.
\<close>

datatype kg_packet_type = KG_PACKET_TYPE_EVENT
datatype kg_packet_class = KG_PACKET_CLASS_MOTION
datatype kg_packet_id = KG_PACKET_ID_EVT_MOTION_MODE | KG_PACKET_ID_EVT_MOTION_DATA

text \<open>The five arguments of one call of \<^verbatim>\<open>send_keyglove_packet\<close>.\<close>

record keyglove_packet =
  packet_type :: kg_packet_type
  packet_length :: nat
  packet_class :: kg_packet_class
  packet_id :: kg_packet_id
  packet_payload :: "uint8_t list"

text \<open>
  One constructor for each call that leaves the file. The two \<open>Callback\<close> constructors
  record an invocation of the observer with the arguments it received; \<open>Send\<close> records a
  call of \<^verbatim>\<open>send_keyglove_packet\<close>.
\<close>

datatype effect =
    PinModeInput
  | DigitalWriteHigh
  | Initialize
  | Delay nat
  | SetFullScaleGyroRange2000
  | SetDLPFMode42
  | SetRate nat
  | SetInterruptMode nat
  | SetInterruptDrive nat
  | SetInterruptLatch nat
  | SetInterruptLatchClear nat
  | SetIntDataReadyEnabled nat
  | AttachInterrupt
  | DetachInterrupt
  | SetSleepEnabled bool
  | GetMotion6
  | CallbackMotionMode uint8_t uint8_t
  | CallbackMotionData uint8_t uint8_t uint8_t "uint8_t list"
  | Send keyglove_packet

text \<open>
  The globals. \<^verbatim>\<open>skipPacket\<close>, \<^verbatim>\<open>inBinPacket\<close> and the two callback pointers
  \<^verbatim>\<open>kg_evt_motion_mode\<close>, \<^verbatim>\<open>kg_evt_motion_data\<close> are declared outside the file and only
  used here: \<^verbatim>\<open>skipPacket\<close> is taken as a byte, tested for being nonzero as the source
  does, \<^verbatim>\<open>inBinPacket\<close> as a flag, and a callback pointer as an optional function of its
  arguments whose result is the byte stored in \<^verbatim>\<open>skipPacket\<close> (\<open>None\<close> is the null
  pointer). What a callback does besides returning is outside the file and not
  modelled.
\<close>

record motion_state =
  mpuHandInterrupt :: bool
  aaRaw :: VectorInt16
  aa :: VectorInt16
  aa0 :: VectorInt16
  gvRaw :: VectorInt16
  gv :: VectorInt16
  gv0 :: VectorInt16
  skipPacket :: uint8_t
  inBinPacket :: bool
  kg_evt_motion_mode :: "(uint8_t \<Rightarrow> uint8_t \<Rightarrow> uint8_t) option"
  kg_evt_motion_data :: "(uint8_t \<Rightarrow> uint8_t \<Rightarrow> uint8_t \<Rightarrow> uint8_t list \<Rightarrow> uint8_t) option"
  trace :: "effect list"

definition emit :: "effect \<Rightarrow> motion_state \<Rightarrow> motion_state" where
  "emit e s = s\<lparr>trace := trace s @ [e]\<rparr>"

section \<open>The smoothing filter\<close>

text \<open>
  One line of the filter is \<^verbatim>\<open>aa.x = aa0.x + (0.25 * (aaRaw.x - aa0.x));\<close>.
  Both operands of the subtraction are promoted to \<^verbatim>\<open>int\<close> and subtracted there; the
  difference is converted to \<^verbatim>\<open>double\<close> and multiplied by 0.25; \<^verbatim>\<open>aa0.x\<close> is converted
  and added; the assignment converts the sum to \<^verbatim>\<open>int16_t\<close>, which discards the
  fractional part (truncation towards zero).

  The file is written for the AVR board whose INT4 pin is Arduino pin 36 (the comment
  in \<^verbatim>\<open>setup_motion_mpu6050_hand\<close>). There \<^verbatim>\<open>int\<close> has 16 bits, so the difference of
  two \<^verbatim>\<open>int16_t\<close> values need not fit into it. The language leaves signed overflow
  undefined; the subtraction the compiler emits for that target works modulo \<open>2 ^ 16\<close>,
  and the model writes this wrap-around out: the difference is \<open>sint (raw - prev)\<close> on
  16-bit words. Where the exact difference fits into 16 bits (\<open>difference_fits\<close>) the
  two agree (lemma \<open>sint_difference\<close>).

  The floating-point values are modelled as rationals: every value that occurs is a
  multiple of 1/4 of magnitude at most \<open>5 * 2 ^ 13\<close> (lemma \<open>filter_value_quarters\<close>),
  and such a value is represented exactly by a binary floating-point number with a
  significand of 18 bits or more, which covers the 32-bit \<^verbatim>\<open>double\<close> of the target, so no
  operation rounds. The conversion to \<^verbatim>\<open>int16_t\<close> is defined by the language only for
  values in range. Where the difference fits, no other value occurs (lemma
  \<open>filter_value_in_range\<close>); for a value out of range the model keeps the low 16 bits
  of the truncated value, and no theorem about a concrete input below meets that case.
\<close>

definition truncate_toward_zero :: "rat \<Rightarrow> int" where
  "truncate_toward_zero v = (if 0 \<le> v then \<lfloor>v\<rfloor> else \<lceil>v\<rceil>)"

definition double_to_int16 :: "rat \<Rightarrow> int16_t" where
  "double_to_int16 v = word_of_int (truncate_toward_zero v)"

definition filter_value :: "int16_t \<Rightarrow> int16_t \<Rightarrow> rat" where
  "filter_value prev raw = of_int (sint prev) + (1 / 4) * of_int (sint (raw - prev))"

definition smoothing_filter :: "int16_t \<Rightarrow> int16_t \<Rightarrow> int16_t" where
  "smoothing_filter prev raw = double_to_int16 (filter_value prev raw)"

section \<open>The event encoder\<close>

text \<open>
  \<^verbatim>\<open>payload[3] = aa.x & 0xFF; payload[4] = aa.x >> 8;\<close>: the \<^verbatim>\<open>int16_t\<close> is promoted to
  \<^verbatim>\<open>int\<close>, masked or shifted there (the shift of a negative value is arithmetic), and
  the result is converted to \<^verbatim>\<open>uint8_t\<close>, which keeps the low eight bits.
\<close>

definition lo_byte :: "int16_t \<Rightarrow> uint8_t" where
  "lo_byte w = word_of_int (sint w AND 255)"

definition hi_byte :: "int16_t \<Rightarrow> uint8_t" where
  "hi_byte w = word_of_int (drop_bit 8 (sint w))"

definition motion_data_payload :: "VectorInt16 \<Rightarrow> VectorInt16 \<Rightarrow> uint8_t list" where
  "motion_data_payload a g =
     [0, 3, 12,
      lo_byte (vx a), hi_byte (vx a),
      lo_byte (vy a), hi_byte (vy a),
      lo_byte (vz a), hi_byte (vz a),
      lo_byte (vx g), hi_byte (vx g),
      lo_byte (vy g), hi_byte (vy g),
      lo_byte (vz g), hi_byte (vz g)]"

section \<open>The functions of the file\<close>

text \<open>\<^verbatim>\<open>motion_mpu6050_hand_interrupt\<close>: the interrupt handler.\<close>

definition motion_mpu6050_hand_interrupt :: "motion_state \<Rightarrow> motion_state" where
  "motion_mpu6050_hand_interrupt s = s\<lparr>mpuHandInterrupt := True\<rparr>"

text \<open>
  The dispatch of an event, written twice in the source with the same shape:
  \<^verbatim>\<open>skipPacket = 0; if (callback) skipPacket = callback(...); if (!skipPacket) send(...)\<close>.
\<close>

definition dispatch_motion_mode :: "uint8_t list \<Rightarrow> motion_state \<Rightarrow> motion_state" where
  "dispatch_motion_mode payload s =
     (let s1 = s\<lparr>skipPacket := 0\<rparr>;
          s2 = (case kg_evt_motion_mode s1 of
                  None \<Rightarrow> s1
                | Some f \<Rightarrow>
                    (emit (CallbackMotionMode (payload ! 0) (payload ! 1)) s1)
                      \<lparr>skipPacket := f (payload ! 0) (payload ! 1)\<rparr>)
      in if skipPacket s2 = 0
         then emit (Send \<lparr>packet_type = KG_PACKET_TYPE_EVENT, packet_length = 2,
                          packet_class = KG_PACKET_CLASS_MOTION,
                          packet_id = KG_PACKET_ID_EVT_MOTION_MODE,
                          packet_payload = payload\<rparr>) s2
         else s2)"

definition dispatch_motion_data :: "uint8_t list \<Rightarrow> motion_state \<Rightarrow> motion_state" where
  "dispatch_motion_data payload s =
     (let s1 = s\<lparr>skipPacket := 0\<rparr>;
          s2 = (case kg_evt_motion_data s1 of
                  None \<Rightarrow> s1
                | Some f \<Rightarrow>
                    (emit (CallbackMotionData (payload ! 0) (payload ! 1) (payload ! 2)
                             (drop 3 payload)) s1)
                      \<lparr>skipPacket := f (payload ! 0) (payload ! 1) (payload ! 2)
                                       (drop 3 payload)\<rparr>)
      in if skipPacket s2 = 0
         then emit (Send \<lparr>packet_type = KG_PACKET_TYPE_EVENT, packet_length = 15,
                          packet_class = KG_PACKET_CLASS_MOTION,
                          packet_id = KG_PACKET_ID_EVT_MOTION_DATA,
                          packet_payload = payload\<rparr>) s2
         else s2)"

text \<open>\<^verbatim>\<open>motion_set_mpu6050_hand_mode\<close>: the branch on \<^verbatim>\<open>mode\<close>, then the event.\<close>

definition set_mode_hardware :: "uint8_t \<Rightarrow> motion_state \<Rightarrow> motion_state" where
  "set_mode_hardware mode s =
     (if mode \<noteq> 0
      then emit (SetSleepEnabled False)
             (emit AttachInterrupt
                (s\<lparr>aa := \<lparr>vx = 0, vy = 0, vz = 0\<rparr>,
                   gv := \<lparr>vx = 0, vy = 0, vz = 0\<rparr>,
                   mpuHandInterrupt := True\<rparr>))
      else emit DetachInterrupt (emit (SetSleepEnabled True) s))"

definition motion_set_mpu6050_hand_mode :: "uint8_t \<Rightarrow> motion_state \<Rightarrow> motion_state" where
  "motion_set_mpu6050_hand_mode mode s =
     (let s1 = set_mode_hardware mode s
      in if \<not> inBinPacket s1 then dispatch_motion_mode [0, mode] s1 else s1)"

text \<open>\<^verbatim>\<open>setup_motion_mpu6050_hand\<close>: the calls in the order of the source.\<close>

definition setup_motion_mpu6050_hand :: "motion_state \<Rightarrow> motion_state" where
  "setup_motion_mpu6050_hand s =
     (let s1 = emit DigitalWriteHigh (emit PinModeInput s);
          s2 = s1\<lparr>mpuHandInterrupt := False\<rparr>
      in foldl (\<lambda>t e. emit e t) s2
           [Initialize, Delay 30, SetFullScaleGyroRange2000, SetDLPFMode42, SetRate 9,
            SetInterruptMode 1, SetInterruptDrive 1, SetInterruptLatch 0,
            SetInterruptLatchClear 1, SetIntDataReadyEnabled 1])"

text \<open>
  \<^verbatim>\<open>update_motion_mpu6050_hand\<close>, in the four blocks of the source. The six values that
  \<^verbatim>\<open>getMotion6\<close> writes through its pointer arguments are the input of the call: \<open>ra\<close>
  for the accelerometer, \<open>rg\<close> for the gyroscope.
\<close>

definition read_raw_motion :: "VectorInt16 \<Rightarrow> VectorInt16 \<Rightarrow> motion_state \<Rightarrow> motion_state" where
  "read_raw_motion ra rg s =
     (emit GetMotion6 s)
       \<lparr>aaRaw := \<lparr>vx = vx ra, vy = vy ra, vz = vz ra\<rparr>,
        gvRaw := \<lparr>vx = vx rg, vy = vy rg, vz = vz rg\<rparr>\<rparr>"

definition store_previous :: "motion_state \<Rightarrow> motion_state" where
  "store_previous s =
     s\<lparr>aa0 := \<lparr>vx = vx (aa s), vy = vy (aa s), vz = vz (aa s)\<rparr>,
       gv0 := \<lparr>vx = vx (gv s), vy = vy (gv s), vz = vz (gv s)\<rparr>\<rparr>"

definition apply_filter :: "motion_state \<Rightarrow> motion_state" where
  "apply_filter s =
     s\<lparr>aa := \<lparr>vx = smoothing_filter (vx (aa0 s)) (vx (aaRaw s)),
               vy = smoothing_filter (vy (aa0 s)) (vy (aaRaw s)),
               vz = smoothing_filter (vz (aa0 s)) (vz (aaRaw s))\<rparr>,
       gv := \<lparr>vx = smoothing_filter (vx (gv0 s)) (vx (gvRaw s)),
               vy = smoothing_filter (vy (gv0 s)) (vy (gvRaw s)),
               vz = smoothing_filter (vz (gv0 s)) (vz (gvRaw s))\<rparr>\<rparr>"

definition build_and_send :: "motion_state \<Rightarrow> motion_state" where
  "build_and_send s = dispatch_motion_data (motion_data_payload (aa s) (gv s)) s"

definition update_motion_mpu6050_hand ::
    "VectorInt16 \<Rightarrow> VectorInt16 \<Rightarrow> motion_state \<Rightarrow> motion_state" where
  "update_motion_mpu6050_hand ra rg s =
     build_and_send (apply_filter (store_previous (read_raw_motion ra rg s)))"

section \<open>Definitions used to state the properties\<close>

text \<open>
  The filter as the specification words it, on exact numbers:
  \<open>filtered_new = filtered_prev + \<alpha> \<times> (raw - filtered_prev)\<close> with \<open>\<alpha> = 0.25\<close>.
\<close>

definition ema_spec :: "rat \<Rightarrow> rat \<Rightarrow> rat" where
  "ema_spec filtered_prev raw = filtered_prev + (1 / 4) * (raw - filtered_prev)"

text \<open>
  \<open>filtered_from new prev raw\<close>: the 16-bit value \<open>new\<close> is the specification's value for
  \<open>prev\<close> and \<open>raw\<close> with its fractional part discarded.
\<close>

definition filtered_from :: "int16_t \<Rightarrow> int16_t \<Rightarrow> int16_t \<Rightarrow> bool" where
  "filtered_from new prev raw \<longleftrightarrow>
     sint new = truncate_toward_zero (ema_spec (of_int (sint prev)) (of_int (sint raw)))"

text \<open>
  \<open>difference_fits prev raw\<close>: the exact difference \<open>raw - prev\<close> is a 16-bit signed
  value, so the subtraction of the filter does not overflow. \<open>filter_n n prev raw\<close>: one
  axis after \<open>n\<close> filter steps against the same raw value.
\<close>

definition difference_fits :: "int16_t \<Rightarrow> int16_t \<Rightarrow> bool" where
  "difference_fits prev raw \<longleftrightarrow>
     - 32768 \<le> sint raw - sint prev \<and> sint raw - sint prev \<le> 32767"

fun filter_n :: "nat \<Rightarrow> int16_t \<Rightarrow> int16_t \<Rightarrow> int16_t" where
  "filter_n 0 prev raw = prev"
| "filter_n (Suc n) prev raw = smoothing_filter (filter_n n prev raw) raw"





definition vec_fits :: "VectorInt16 \<Rightarrow> VectorInt16 \<Rightarrow> bool" where
  "vec_fits a r \<longleftrightarrow>
     difference_fits (vx a) (vx r) \<and> difference_fits (vy a) (vy r) \<and>
     difference_fits (vz a) (vz r)"



text \<open>
  \<open>hold_raw n ra rg s\<close>: \<open>n\<close> consecutive calls of the update operation from \<open>s\<close>, the
  sensor delivering the same reading \<open>ra\<close>, \<open>rg\<close> every time.
\<close>

fun hold_raw :: "nat \<Rightarrow> VectorInt16 \<Rightarrow> VectorInt16 \<Rightarrow> motion_state \<Rightarrow> motion_state" where
  "hold_raw 0 ra rg s = s"
| "hold_raw (Suc n) ra rg s = update_motion_mpu6050_hand ra rg (hold_raw n ra rg s)"

text \<open>
  Two consecutive payload bytes read as one little-endian signed 16-bit integer: the
  first byte is the low one, and values from \<open>2 ^ 15\<close> on are negative.
\<close>

definition decode_le_int16 :: "uint8_t \<Rightarrow> uint8_t \<Rightarrow> int" where
  "decode_le_int16 lo hi =
     (let u = uint lo + 256 * uint hi in if 32768 \<le> u then u - 65536 else u)"

definition vector_zero :: VectorInt16 where
  "vector_zero = \<lparr>vx = 0, vy = 0, vz = 0\<rparr>"

text \<open>
  The packets handed to \<^verbatim>\<open>send_keyglove_packet\<close> for a payload, and what a state has sent
  and read so far.
\<close>

definition motion_data_event :: "uint8_t list \<Rightarrow> keyglove_packet" where
  "motion_data_event payload =
     \<lparr>packet_type = KG_PACKET_TYPE_EVENT, packet_length = 15,
      packet_class = KG_PACKET_CLASS_MOTION, packet_id = KG_PACKET_ID_EVT_MOTION_DATA,
      packet_payload = payload\<rparr>"

definition motion_mode_event :: "uint8_t list \<Rightarrow> keyglove_packet" where
  "motion_mode_event payload =
     \<lparr>packet_type = KG_PACKET_TYPE_EVENT, packet_length = 2,
      packet_class = KG_PACKET_CLASS_MOTION, packet_id = KG_PACKET_ID_EVT_MOTION_MODE,
      packet_payload = payload\<rparr>"

fun sent_packets :: "effect list \<Rightarrow> keyglove_packet list" where
  "sent_packets [] = []"
| "sent_packets (Send p # es) = p # sent_packets es"
| "sent_packets (e # es) = sent_packets es"

definition sent :: "motion_state \<Rightarrow> keyglove_packet list" where
  "sent s = sent_packets (trace s)"

definition reads :: "motion_state \<Rightarrow> nat" where
  "reads s = count_list (trace s) GetMotion6"

text \<open>
  \<open>new_effects s s'\<close>: the calls recorded on the way from \<open>s\<close> to \<open>s'\<close>.
  \<open>mode_hardware_effects mode\<close>: the driver calls of the branch that
  \<^verbatim>\<open>motion_set_mpu6050_hand_mode\<close> takes for \<open>mode\<close>. \<open>new_payload ra rg s\<close>: the payload
  encoded from the filtered vectors that the update leaves behind.
\<close>

definition new_effects :: "motion_state \<Rightarrow> motion_state \<Rightarrow> effect list" where
  "new_effects s s' = drop (length (trace s)) (trace s')"

definition mode_hardware_effects :: "uint8_t \<Rightarrow> effect list" where
  "mode_hardware_effects mode =
     (if mode \<noteq> 0 then [AttachInterrupt, SetSleepEnabled False]
      else [SetSleepEnabled True, DetachInterrupt])"

definition new_payload :: "VectorInt16 \<Rightarrow> VectorInt16 \<Rightarrow> motion_state \<Rightarrow> uint8_t list" where
  "new_payload ra rg s =
     motion_data_payload (aa (update_motion_mpu6050_hand ra rg s))
       (gv (update_motion_mpu6050_hand ra rg s))"

text \<open>
  Modelled from the spec: the poll of the main loop, which lives outside
  \<^verbatim>\<open>support_motion_mpu6050_hand.h\<close>. The specification has the polling consumer test
  the Latch, clear it and run one read/filter/encode/dispatch sequence: ``if the Latch
  is false, no read/filter/encode/dispatch sequence executes on a given poll; if true,
  exactly one sequence executes and the Latch is false immediately after''. Interrupts
  arriving while the poll runs are not part of the model.
\<close>

definition poll :: "VectorInt16 \<Rightarrow> VectorInt16 \<Rightarrow> motion_state \<Rightarrow> motion_state" where
  "poll ra rg s =
     (if mpuHandInterrupt s
      then update_motion_mpu6050_hand ra rg (s\<lparr>mpuHandInterrupt := False\<rparr>)
      else s)"

text \<open>
  Concrete states and callbacks for the examples: nothing enabled and no callback
  registered; both callbacks registered and never vetoing; both registered and always
  vetoing; a binary command being replayed.
\<close>

definition idle_state :: motion_state where
  "idle_state =
     \<lparr>mpuHandInterrupt = False,
      aaRaw = \<lparr>vx = 0, vy = 0, vz = 0\<rparr>, aa = \<lparr>vx = 0, vy = 0, vz = 0\<rparr>,
      aa0 = \<lparr>vx = 0, vy = 0, vz = 0\<rparr>, gvRaw = \<lparr>vx = 0, vy = 0, vz = 0\<rparr>,
      gv = \<lparr>vx = 0, vy = 0, vz = 0\<rparr>, gv0 = \<lparr>vx = 0, vy = 0, vz = 0\<rparr>,
      skipPacket = 0, inBinPacket = False,
      kg_evt_motion_mode = None, kg_evt_motion_data = None, trace = []\<rparr>"

definition level_100 :: VectorInt16 where
  "level_100 = \<lparr>vx = 100, vy = 100, vz = 100\<rparr>"

definition raw_1000 :: VectorInt16 where
  "raw_1000 = \<lparr>vx = 1000, vy = 0, vz = 0\<rparr>"

definition payload_250 :: "uint8_t list" where
  "payload_250 = [0, 3, 12, 250, 0, 0, 0, 0, 0, 0, 0, 0, 0, 0, 0]"

text \<open>
  A filtered value of 20000 meeting a reading of -20000, a full-scale reading, and a
  reading 3 away from a filtered value of 0.
\<close>

definition swing_state :: motion_state where
  "swing_state = idle_state\<lparr>aa := \<lparr>vx = 20000, vy = 0, vz = 0\<rparr>\<rparr>"

definition swing_raw :: VectorInt16 where
  "swing_raw = \<lparr>vx = - 20000, vy = 0, vz = 0\<rparr>"

definition full_scale_raw :: VectorInt16 where
  "full_scale_raw = \<lparr>vx = 32767, vy = 0, vz = 0\<rparr>"


definition always_skip_mode :: "uint8_t \<Rightarrow> uint8_t \<Rightarrow> uint8_t" where
  "always_skip_mode index mode = 1"

definition never_skip_mode :: "uint8_t \<Rightarrow> uint8_t \<Rightarrow> uint8_t" where
  "never_skip_mode index mode = 0"

definition always_skip_data :: "uint8_t \<Rightarrow> uint8_t \<Rightarrow> uint8_t \<Rightarrow> uint8_t list \<Rightarrow> uint8_t" where
  "always_skip_data index flags data_len data = 1"

definition never_skip_data :: "uint8_t \<Rightarrow> uint8_t \<Rightarrow> uint8_t \<Rightarrow> uint8_t list \<Rightarrow> uint8_t" where
  "never_skip_data index flags data_len data = 0"

definition observed_state :: motion_state where
  "observed_state =
     idle_state\<lparr>kg_evt_motion_mode := Some never_skip_mode,
                kg_evt_motion_data := Some never_skip_data\<rparr>"

definition vetoed_state :: motion_state where
  "vetoed_state =
     idle_state\<lparr>kg_evt_motion_mode := Some always_skip_mode,
                kg_evt_motion_data := Some always_skip_data\<rparr>"

definition replay_state :: motion_state where
  "replay_state = idle_state\<lparr>inBinPacket := True\<rparr>"

section \<open>The filter on one axis\<close>

lemma sint16_bounds: "- 32768 \<le> sint (w :: int16_t) \<and> sint w \<le> 32767"
  using sint_ge [of w] sint_lt [of w] by simp

lemma sint_difference:
  "difference_fits prev raw \<Longrightarrow> sint (raw - prev) = sint raw - sint prev"
  by (simp add: difference_fits_def sint_word_ariths signed_take_bit_int_eq_self)

lemma filter_value_quarters_eq:
  "filter_value prev raw = of_int (4 * sint prev + sint (raw - prev)) / 4"
  by (simp add: filter_value_def field_simps)

lemma filter_value_quarters:
  "\<exists>k. filter_value prev raw = of_int k / 4 \<and> \<bar>k\<bar> \<le> 5 * 2 ^ 15"
proof (intro exI conjI)
  show "filter_value prev raw = of_int (4 * sint prev + sint (raw - prev)) / 4"
    by (rule filter_value_quarters_eq)
  show "\<bar>4 * sint prev + sint (raw - prev)\<bar> \<le> 5 * 2 ^ 15"
    using sint16_bounds [of prev] sint16_bounds [of "raw - prev"] by (simp add: abs_le_iff)
qed

lemma truncate_quarters: "truncate_toward_zero (of_int n / 4) = n sdiv 4"
proof -
  have fl: "\<lfloor>(of_int n :: rat) / 4\<rfloor> = n div 4"
    using floor_divide_of_int_eq [of n 4, where ?'a = rat] by simp
  have ce: "\<lceil>(of_int n :: rat) / 4\<rceil> = - ((- n) div 4)"
    using ceiling_divide_eq_div [of n 4, where ?'a = rat] by simp
  show ?thesis
    unfolding truncate_toward_zero_def fl ce
    by (auto simp: signed_divide_int_def sgn_if zero_le_divide_iff)
qed

lemma truncate_filter_value:
  "truncate_toward_zero (filter_value prev raw) = (4 * sint prev + sint (raw - prev)) sdiv 4"
  by (simp only: filter_value_quarters_eq truncate_quarters)

lemma smoothing_filter_word:
  "smoothing_filter prev raw = word_of_int ((4 * sint prev + sint (raw - prev)) sdiv 4)"
  by (simp only: smoothing_filter_def double_to_int16_def truncate_filter_value)

lemma smoothing_filter_zero [simp]: "smoothing_filter 0 0 = 0"
  by (simp add: smoothing_filter_word)

lemma truncate_filter_value_fits:
  "difference_fits prev raw \<Longrightarrow>
   truncate_toward_zero (filter_value prev raw) = (3 * sint prev + sint raw) sdiv 4"
proof -
  assume "difference_fits prev raw"
  then have "4 * sint prev + sint (raw - prev) = 3 * sint prev + sint raw"
    by (simp add: sint_difference)
  then show ?thesis by (simp only: truncate_filter_value)
qed

lemma sdiv4_between_le:
  "(a::int) \<le> b \<Longrightarrow> a \<le> (3 * a + b) sdiv 4 \<and> (3 * a + b) sdiv 4 \<le> b"
  by (auto simp: signed_divide_int_def sgn_if)

lemma sdiv4_between_ge:
  "(b::int) \<le> a \<Longrightarrow> b \<le> (3 * a + b) sdiv 4 \<and> (3 * a + b) sdiv 4 \<le> a"
  by (auto simp: signed_divide_int_def sgn_if)

lemma filter_value_in_range:
  assumes "difference_fits prev raw"
  shows "- 32768 \<le> truncate_toward_zero (filter_value prev raw) \<and>
         truncate_toward_zero (filter_value prev raw) \<le> 32767"
proof (cases "sint prev \<le> sint raw")
  case True
  from sdiv4_between_le [OF True] sint16_bounds [of prev] sint16_bounds [of raw]
  show ?thesis by (simp only: truncate_filter_value_fits [OF assms]) linarith
next
  case False
  then have "sint raw \<le> sint prev" by simp
  from sdiv4_between_ge [OF this] sint16_bounds [of prev] sint16_bounds [of raw]
  show ?thesis by (simp only: truncate_filter_value_fits [OF assms]) linarith
qed

lemma sint_smoothing_filter:
  "difference_fits prev raw \<Longrightarrow>
   sint (smoothing_filter prev raw) = truncate_toward_zero (filter_value prev raw)"
  unfolding smoothing_filter_def double_to_int16_def
  using filter_value_in_range [of prev raw]
  by (simp add: sint_sbintrunc' signed_take_bit_int_eq_self)


















lemma filter_stall_example: "smoothing_filter 0 3 = 0 \<and> smoothing_filter 1 3 = 1"
  by (simp add: smoothing_filter_word signed_divide_int_def)

text \<open>
  Where the difference fits, the stored value is the specification's value with the
  fractional part discarded.
\<close>

lemma filtered_from_smoothing_filter:
  assumes "difference_fits prev raw"
  shows "filtered_from (smoothing_filter prev raw) prev raw"
proof -
  have "ema_spec (of_int (sint prev)) (of_int (sint raw)) = filter_value prev raw"
    by (simp add: ema_spec_def filter_value_def sint_difference [OF assms])
  then show ?thesis
    by (simp add: filtered_from_def sint_smoothing_filter [OF assms])
qed

lemma ema_spec_swing: "truncate_toward_zero (ema_spec 20000 (- 20000)) = 10000"
  by (simp add: ema_spec_def truncate_toward_zero_def)

lemma filter_n_full_scale: "filter_n 4 0 32767 = 22399"
  by (simp add: eval_nat_numeral smoothing_filter_word signed_divide_int_def)

section \<open>The encoder\<close>

lemma uint_lo_byte: "uint (lo_byte w) = sint w mod 256"
proof -
  have "sint w AND 255 = take_bit 8 (sint w)"
    using take_bit_eq_mask [of 8 "sint w"] by (simp add: mask_eq_exp_minus_1)
  then show ?thesis
    by (simp add: lo_byte_def uint_word_of_int take_bit_eq_mod)
qed

lemma uint_hi_byte: "uint (hi_byte w) = (sint w div 256) mod 256"
  by (simp add: hi_byte_def uint_word_of_int drop_bit_eq_div)

lemma bytes_recombine: "uint (lo_byte w) + 256 * uint (hi_byte w) = sint w mod 65536"
  using zmod_zmult2_eq [of 256 "sint w" 256]
  by (simp add: uint_lo_byte uint_hi_byte)

lemma sint16_mod: "sint (w :: int16_t) mod 65536 = (if sint w < 0 then sint w + 65536 else sint w)"
proof (cases "sint w < 0")
  case True
  have "(sint w + 65536) mod 65536 = sint w + 65536"
    using True sint16_bounds [of w] by (intro mod_pos_pos_trivial) simp_all
  then show ?thesis using True by simp
next
  case False
  have "sint w mod 65536 = sint w"
    using False sint16_bounds [of w] by (intro mod_pos_pos_trivial) simp_all
  then show ?thesis using False by simp
qed

lemma decode_encode: "decode_le_int16 (lo_byte w) (hi_byte w) = sint w"
  using sint16_bounds [of w]
  by (simp add: decode_le_int16_def Let_def bytes_recombine sint16_mod)

lemma motion_data_payload_head:
  "motion_data_payload a g ! 0 = 0 \<and> motion_data_payload a g ! 1 = 3 \<and>
   motion_data_payload a g ! 2 = 12 \<and> length (motion_data_payload a g) = 15"
  by (simp add: motion_data_payload_def)

lemma motion_data_payload_Suc0: "motion_data_payload a g ! Suc 0 = 3"
  by (simp add: motion_data_payload_def)

lemma payload_example:
  "motion_data_payload \<lparr>vx = 1, vy = - 1, vz = 300\<rparr> \<lparr>vx = - 300, vy = 0, vz = 32767\<rparr> =
     [0, 3, 12, 1, 0, 255, 255, 44, 1, 212, 254, 0, 0, 255, 127]"
  by (simp add: motion_data_payload_def lo_byte_def hi_byte_def)

text \<open>
  Claim C2. For all filtered vectors \<open>a\<close> and \<open>g\<close> the motion-data payload has 15 bytes:
  sensor index 0, channel mask 3, byte count 12, then ax, ay, az, gx, gy, gz, each as
  two bytes, low byte first; reading each pair of data bytes as a little-endian signed
  16-bit integer gives back the six filtered values.
\<close>

theorem C2_motion_payload_roundtrip:
  "length (motion_data_payload a g) = 15 \<and>
   motion_data_payload a g ! 0 = 0 \<and>
   motion_data_payload a g ! 1 = 3 \<and>
   motion_data_payload a g ! 2 = 12 \<and>
   decode_le_int16 (motion_data_payload a g ! 3) (motion_data_payload a g ! 4) = sint (vx a) \<and>
   decode_le_int16 (motion_data_payload a g ! 5) (motion_data_payload a g ! 6) = sint (vy a) \<and>
   decode_le_int16 (motion_data_payload a g ! 7) (motion_data_payload a g ! 8) = sint (vz a) \<and>
   decode_le_int16 (motion_data_payload a g ! 9) (motion_data_payload a g ! 10) = sint (vx g) \<and>
   decode_le_int16 (motion_data_payload a g ! 11) (motion_data_payload a g ! 12) = sint (vy g) \<and>
   decode_le_int16 (motion_data_payload a g ! 13) (motion_data_payload a g ! 14) = sint (vz g)"
  by (simp add: motion_data_payload_def decode_encode)

section \<open>The dispatch gate\<close>

lemma sent_packets_append: "sent_packets (xs @ ys) = sent_packets xs @ sent_packets ys"
  by (induction xs rule: sent_packets.induct) simp_all

lemma dispatch_motion_data_absent:
  "kg_evt_motion_data s = None \<Longrightarrow>
   trace (dispatch_motion_data p s) = trace s @ [Send (motion_data_event p)]"
  by (simp add: dispatch_motion_data_def emit_def motion_data_event_def)

lemma dispatch_motion_data_skip:
  "kg_evt_motion_data s = Some f \<Longrightarrow> f (p ! 0) (p ! 1) (p ! 2) (drop 3 p) \<noteq> 0 \<Longrightarrow>
   trace (dispatch_motion_data p s) =
     trace s @ [CallbackMotionData (p ! 0) (p ! 1) (p ! 2) (drop 3 p)]"
  by (simp add: dispatch_motion_data_def emit_def)

lemma dispatch_motion_data_pass:
  "kg_evt_motion_data s = Some f \<Longrightarrow> f (p ! 0) (p ! 1) (p ! 2) (drop 3 p) = 0 \<Longrightarrow>
   trace (dispatch_motion_data p s) =
     trace s @ [CallbackMotionData (p ! 0) (p ! 1) (p ! 2) (drop 3 p),
                Send (motion_data_event p)]"
  by (simp add: dispatch_motion_data_def emit_def motion_data_event_def)

lemma dispatch_motion_mode_absent:
  "kg_evt_motion_mode s = None \<Longrightarrow>
   trace (dispatch_motion_mode p s) = trace s @ [Send (motion_mode_event p)]"
  by (simp add: dispatch_motion_mode_def emit_def motion_mode_event_def)

lemma dispatch_motion_mode_skip:
  "kg_evt_motion_mode s = Some f \<Longrightarrow> f (p ! 0) (p ! 1) \<noteq> 0 \<Longrightarrow>
   trace (dispatch_motion_mode p s) = trace s @ [CallbackMotionMode (p ! 0) (p ! 1)]"
  by (simp add: dispatch_motion_mode_def emit_def)

lemma dispatch_motion_mode_pass:
  "kg_evt_motion_mode s = Some f \<Longrightarrow> f (p ! 0) (p ! 1) = 0 \<Longrightarrow>
   trace (dispatch_motion_mode p s) =
     trace s @ [CallbackMotionMode (p ! 0) (p ! 1), Send (motion_mode_event p)]"
  by (simp add: dispatch_motion_mode_def emit_def motion_mode_event_def)

lemma dispatch_motion_mode_frame:
  "aa (dispatch_motion_mode p s) = aa s \<and> gv (dispatch_motion_mode p s) = gv s \<and>
   mpuHandInterrupt (dispatch_motion_mode p s) = mpuHandInterrupt s"
  by (simp add: dispatch_motion_mode_def emit_def Let_def split: option.split)

section \<open>The update operation\<close>

lemmas update_steps =
  update_motion_mpu6050_hand_def build_and_send_def apply_filter_def store_previous_def
  read_raw_motion_def dispatch_motion_data_def emit_def

lemma update_aa:
  "aa (update_motion_mpu6050_hand ra rg s) =
     \<lparr>vx = smoothing_filter (vx (aa s)) (vx ra),
      vy = smoothing_filter (vy (aa s)) (vy ra),
      vz = smoothing_filter (vz (aa s)) (vz ra)\<rparr>"
  by (simp add: update_steps Let_def split: option.split)

lemma update_gv:
  "gv (update_motion_mpu6050_hand ra rg s) =
     \<lparr>vx = smoothing_filter (vx (gv s)) (vx rg),
      vy = smoothing_filter (vy (gv s)) (vy rg),
      vz = smoothing_filter (vz (gv s)) (vz rg)\<rparr>"
  by (simp add: update_steps Let_def split: option.split)

lemma update_aa0: "aa0 (update_motion_mpu6050_hand ra rg s) = aa s"
  by (simp add: update_steps Let_def split: option.split)

lemma update_gv0: "gv0 (update_motion_mpu6050_hand ra rg s) = gv s"
  by (simp add: update_steps Let_def split: option.split)

lemma update_raw:
  "aaRaw (update_motion_mpu6050_hand ra rg s) = ra \<and>
   gvRaw (update_motion_mpu6050_hand ra rg s) = rg"
  by (simp add: update_steps Let_def split: option.split)

lemma update_mpuHandInterrupt:
  "mpuHandInterrupt (update_motion_mpu6050_hand ra rg s) = mpuHandInterrupt s"
  by (simp add: update_steps Let_def split: option.split)

lemma hold_raw_axes:
  "vx (aa (hold_raw n ra rg s)) = filter_n n (vx (aa s)) (vx ra) \<and>
   vy (aa (hold_raw n ra rg s)) = filter_n n (vy (aa s)) (vy ra) \<and>
   vz (aa (hold_raw n ra rg s)) = filter_n n (vz (aa s)) (vz ra) \<and>
   vx (gv (hold_raw n ra rg s)) = filter_n n (vx (gv s)) (vx rg) \<and>
   vy (gv (hold_raw n ra rg s)) = filter_n n (vy (gv s)) (vy rg) \<and>
   vz (gv (hold_raw n ra rg s)) = filter_n n (vz (gv s)) (vz rg)"
  by (induction n) (simp_all add: update_aa update_gv)

lemma update_filters_when_difference_fits:
  assumes "vec_fits (aa s) ra" and "vec_fits (gv s) rg"
  shows
  "filtered_from (vx (aa (update_motion_mpu6050_hand ra rg s))) (vx (aa s)) (vx ra) \<and>
   filtered_from (vy (aa (update_motion_mpu6050_hand ra rg s))) (vy (aa s)) (vy ra) \<and>
   filtered_from (vz (aa (update_motion_mpu6050_hand ra rg s))) (vz (aa s)) (vz ra) \<and>
   filtered_from (vx (gv (update_motion_mpu6050_hand ra rg s))) (vx (gv s)) (vx rg) \<and>
   filtered_from (vy (gv (update_motion_mpu6050_hand ra rg s))) (vy (gv s)) (vy rg) \<and>
   filtered_from (vz (gv (update_motion_mpu6050_hand ra rg s))) (vz (gv s)) (vz rg)"
  using assms by (simp add: update_aa update_gv vec_fits_def filtered_from_smoothing_filter)

text \<open>
  Claim C5. Every update copies the filtered vectors into the shadow vectors before it
  computes a new filtered value: after the copy, and after the whole update, \<open>aa0\<close> and
  \<open>gv0\<close> are the filtered vectors the call started from, whatever the raw reading is,
  and over two consecutive calls they are the filtered vectors the first call produced.
\<close>

theorem C5_shadow_holds_previous:
  "aa0 (update_motion_mpu6050_hand ra rg s) = aa s \<and>
   gv0 (update_motion_mpu6050_hand ra rg s) = gv s \<and>
   aa0 (store_previous (read_raw_motion ra rg s)) = aa s \<and>
   gv0 (store_previous (read_raw_motion ra rg s)) = gv s \<and>
   aa0 (update_motion_mpu6050_hand ra' rg' (update_motion_mpu6050_hand ra rg s)) =
     aa (update_motion_mpu6050_hand ra rg s) \<and>
   gv0 (update_motion_mpu6050_hand ra' rg' (update_motion_mpu6050_hand ra rg s)) =
     gv (update_motion_mpu6050_hand ra rg s)"
  by (simp add: update_aa0 update_gv0 store_previous_def read_raw_motion_def emit_def)

lemma filtered_stage:
  "kg_evt_motion_data (apply_filter (store_previous (read_raw_motion ra rg s))) =
     kg_evt_motion_data s \<and>
   trace (apply_filter (store_previous (read_raw_motion ra rg s))) = trace s @ [GetMotion6] \<and>
   aa (apply_filter (store_previous (read_raw_motion ra rg s))) =
     aa (update_motion_mpu6050_hand ra rg s) \<and>
   gv (apply_filter (store_previous (read_raw_motion ra rg s))) =
     gv (update_motion_mpu6050_hand ra rg s)"
  by (simp add: update_steps Let_def split: option.split)

lemma update_trace_absent:
  "kg_evt_motion_data s = None \<Longrightarrow>
   trace (update_motion_mpu6050_hand ra rg s) =
     trace s @ [GetMotion6, Send (motion_data_event (new_payload ra rg s))]"
  unfolding update_motion_mpu6050_hand_def [of ra rg s] build_and_send_def
  by (simp add: dispatch_motion_data_absent filtered_stage new_payload_def)

lemma update_trace_skip:
  "kg_evt_motion_data s = Some f \<Longrightarrow> f 0 3 12 (drop 3 (new_payload ra rg s)) \<noteq> 0 \<Longrightarrow>
   trace (update_motion_mpu6050_hand ra rg s) =
     trace s @ [GetMotion6, CallbackMotionData 0 3 12 (drop 3 (new_payload ra rg s))]"
  unfolding update_motion_mpu6050_hand_def [of ra rg s] build_and_send_def
  using dispatch_motion_data_skip
    [of "apply_filter (store_previous (read_raw_motion ra rg s))" f "new_payload ra rg s"]
  by (simp add: filtered_stage new_payload_def motion_data_payload_head motion_data_payload_Suc0)

lemma update_trace_pass:
  "kg_evt_motion_data s = Some f \<Longrightarrow> f 0 3 12 (drop 3 (new_payload ra rg s)) = 0 \<Longrightarrow>
   trace (update_motion_mpu6050_hand ra rg s) =
     trace s @ [GetMotion6, CallbackMotionData 0 3 12 (drop 3 (new_payload ra rg s)),
                Send (motion_data_event (new_payload ra rg s))]"
  unfolding update_motion_mpu6050_hand_def [of ra rg s] build_and_send_def
  using dispatch_motion_data_pass
    [of "apply_filter (store_previous (read_raw_motion ra rg s))" f "new_payload ra rg s"]
  by (simp add: filtered_stage new_payload_def motion_data_payload_head motion_data_payload_Suc0)

lemma reads_update: "reads (update_motion_mpu6050_hand ra rg s) = reads s + 1"
proof (cases "kg_evt_motion_data s")
  case None
  then show ?thesis by (simp add: reads_def update_trace_absent)
next
  case (Some f)
  then show ?thesis
    by (cases "f 0 3 12 (drop 3 (new_payload ra rg s)) = 0")
      (simp_all add: reads_def update_trace_pass update_trace_skip)
qed

lemma end_to_end_payload:
  "aa s = vector_zero \<Longrightarrow> gv s = vector_zero \<Longrightarrow>
   new_payload raw_1000 vector_zero s = payload_250"
  by (simp add: new_payload_def update_aa update_gv vector_zero_def raw_1000_def
      payload_250_def smoothing_filter_word signed_divide_int_def motion_data_payload_def
      lo_byte_def hi_byte_def)

section \<open>The mode controller\<close>

lemma set_mode_hardware_trace:
  "trace (set_mode_hardware mode s) = trace s @ mode_hardware_effects mode"
  by (simp add: set_mode_hardware_def mode_hardware_effects_def emit_def)

lemma set_mode_hardware_frame:
  "inBinPacket (set_mode_hardware mode s) = inBinPacket s \<and>
   kg_evt_motion_mode (set_mode_hardware mode s) = kg_evt_motion_mode s"
  by (simp add: set_mode_hardware_def emit_def)

lemma set_mode_hardware_enable:
  "mode \<noteq> 0 \<Longrightarrow>
   aa (set_mode_hardware mode s) = vector_zero \<and> gv (set_mode_hardware mode s) = vector_zero \<and>
   mpuHandInterrupt (set_mode_hardware mode s)"
  by (simp add: set_mode_hardware_def emit_def vector_zero_def)

lemma set_mode_hardware_disable:
  "aa (set_mode_hardware 0 s) = aa s \<and> gv (set_mode_hardware 0 s) = gv s \<and>
   mpuHandInterrupt (set_mode_hardware 0 s) = mpuHandInterrupt s"
  by (simp add: set_mode_hardware_def emit_def)

lemma set_mode_state:
  "aa (motion_set_mpu6050_hand_mode mode s) = aa (set_mode_hardware mode s) \<and>
   gv (motion_set_mpu6050_hand_mode mode s) = gv (set_mode_hardware mode s) \<and>
   mpuHandInterrupt (motion_set_mpu6050_hand_mode mode s) =
     mpuHandInterrupt (set_mode_hardware mode s)"
  by (simp add: motion_set_mpu6050_hand_mode_def Let_def dispatch_motion_mode_frame)

lemma set_mode_trace_replay:
  "inBinPacket s \<Longrightarrow>
   trace (motion_set_mpu6050_hand_mode mode s) = trace s @ mode_hardware_effects mode"
  by (simp add: motion_set_mpu6050_hand_mode_def Let_def set_mode_hardware_frame
      set_mode_hardware_trace)

lemma set_mode_trace_absent:
  "\<not> inBinPacket s \<Longrightarrow> kg_evt_motion_mode s = None \<Longrightarrow>
   trace (motion_set_mpu6050_hand_mode mode s) =
     trace s @ mode_hardware_effects mode @ [Send (motion_mode_event [0, mode])]"
  by (simp add: motion_set_mpu6050_hand_mode_def Let_def set_mode_hardware_frame
      set_mode_hardware_trace dispatch_motion_mode_absent)

lemma set_mode_trace_skip:
  "\<not> inBinPacket s \<Longrightarrow> kg_evt_motion_mode s = Some f \<Longrightarrow> f 0 mode \<noteq> 0 \<Longrightarrow>
   trace (motion_set_mpu6050_hand_mode mode s) =
     trace s @ mode_hardware_effects mode @ [CallbackMotionMode 0 mode]"
  using dispatch_motion_mode_skip [of "set_mode_hardware mode s" f "[0, mode]"]
  by (simp add: motion_set_mpu6050_hand_mode_def Let_def set_mode_hardware_frame
      set_mode_hardware_trace)

lemma set_mode_trace_pass:
  "\<not> inBinPacket s \<Longrightarrow> kg_evt_motion_mode s = Some f \<Longrightarrow> f 0 mode = 0 \<Longrightarrow>
   trace (motion_set_mpu6050_hand_mode mode s) =
     trace s @ mode_hardware_effects mode @
       [CallbackMotionMode 0 mode, Send (motion_mode_event [0, mode])]"
  using dispatch_motion_mode_pass [of "set_mode_hardware mode s" f "[0, mode]"]
  by (simp add: motion_set_mpu6050_hand_mode_def Let_def set_mode_hardware_frame
      set_mode_hardware_trace)

lemma sent_mode_hardware_effects: "sent_packets (mode_hardware_effects mode) = []"
  by (simp add: mode_hardware_effects_def)

lemma mode_hardware_effects_length: "length (mode_hardware_effects mode) = 2"
  by (simp add: mode_hardware_effects_def)

lemma set_mode_hardware_first:
  "take 2 (new_effects s (motion_set_mpu6050_hand_mode mode s)) = mode_hardware_effects mode"
proof (cases "inBinPacket s")
  case True
  then show ?thesis
    by (simp add: new_effects_def set_mode_trace_replay mode_hardware_effects_length)
next
  case False
  show ?thesis
  proof (cases "kg_evt_motion_mode s")
    case None
    with False show ?thesis
      by (simp add: new_effects_def set_mode_trace_absent mode_hardware_effects_length)
  next
    case (Some h)
    with False show ?thesis
      by (cases "h 0 mode = 0")
        (simp_all add: new_effects_def set_mode_trace_pass set_mode_trace_skip
          mode_hardware_effects_length)
  qed
qed

lemma setup_mpuHandInterrupt: "\<not> mpuHandInterrupt (setup_motion_mpu6050_hand s)"
  by (simp add: setup_motion_mpu6050_hand_def emit_def Let_def)

lemma example_states:
  "aa idle_state = vector_zero \<and> gv idle_state = vector_zero \<and>
   aa observed_state = vector_zero \<and> gv observed_state = vector_zero \<and>
   aa vetoed_state = vector_zero \<and> gv vetoed_state = vector_zero \<and>
   sent idle_state = [] \<and> sent observed_state = [] \<and> sent vetoed_state = [] \<and>
   trace idle_state = [] \<and> trace observed_state = [] \<and> trace vetoed_state = [] \<and>
   trace replay_state = [] \<and>
   kg_evt_motion_data idle_state = None \<and> kg_evt_motion_mode idle_state = None \<and>
   kg_evt_motion_data observed_state = Some never_skip_data \<and>
   kg_evt_motion_mode observed_state = Some never_skip_mode \<and>
   kg_evt_motion_data vetoed_state = Some always_skip_data \<and>
   kg_evt_motion_mode vetoed_state = Some always_skip_mode \<and>
   \<not> inBinPacket idle_state \<and> \<not> inBinPacket observed_state \<and>
   \<not> inBinPacket vetoed_state \<and> inBinPacket replay_state"
  by (simp add: idle_state_def observed_state_def vetoed_state_def replay_state_def
      vector_zero_def sent_def)

text \<open>
  Claim C4. A call that enables the sensor (any nonzero mode) zeroes both filtered
  vectors and sets the Latch, whatever the filtered state was; the next filter step
  therefore starts from zero, so that with raw input (0,0,0) it yields (0,0,0), and for
  any raw input its result does not depend on the state before the call.
\<close>

theorem C4_enable_resets_filter:
  assumes "mode \<noteq> 0"
  shows "aa (motion_set_mpu6050_hand_mode mode s) = vector_zero \<and>
         gv (motion_set_mpu6050_hand_mode mode s) = vector_zero \<and>
         mpuHandInterrupt (motion_set_mpu6050_hand_mode mode s) \<and>
         aa (update_motion_mpu6050_hand vector_zero vector_zero
               (motion_set_mpu6050_hand_mode mode s)) = vector_zero \<and>
         gv (update_motion_mpu6050_hand vector_zero vector_zero
               (motion_set_mpu6050_hand_mode mode s)) = vector_zero \<and>
         aa (update_motion_mpu6050_hand ra rg (motion_set_mpu6050_hand_mode mode s)) =
           aa (update_motion_mpu6050_hand ra rg (motion_set_mpu6050_hand_mode mode s')) \<and>
         gv (update_motion_mpu6050_hand ra rg (motion_set_mpu6050_hand_mode mode s)) =
           gv (update_motion_mpu6050_hand ra rg (motion_set_mpu6050_hand_mode mode s'))"
  using set_mode_hardware_enable [OF assms, of s] set_mode_hardware_enable [OF assms, of s']
  by (simp add: set_mode_state update_aa update_gv vector_zero_def)

text \<open>
  The example of the specification: prior filtered state (100,100,100), enable, one
  step with raw (0,0,0) gives (0,0,0); the same step without the reset gives
  (75,75,75).
\<close>

theorem C4_enable_resets_filter_witness:
  "(1 :: uint8_t) \<noteq> 0 \<and>
   aa (update_motion_mpu6050_hand vector_zero vector_zero
         (motion_set_mpu6050_hand_mode 1 (idle_state\<lparr>aa := level_100, gv := level_100\<rparr>))) =
     \<lparr>vx = 0, vy = 0, vz = 0\<rparr> \<and>
   gv (update_motion_mpu6050_hand vector_zero vector_zero
         (motion_set_mpu6050_hand_mode 1 (idle_state\<lparr>aa := level_100, gv := level_100\<rparr>))) =
     \<lparr>vx = 0, vy = 0, vz = 0\<rparr> \<and>
   aa (update_motion_mpu6050_hand vector_zero vector_zero
         (idle_state\<lparr>aa := level_100, gv := level_100\<rparr>)) = \<lparr>vx = 75, vy = 75, vz = 75\<rparr>"
proof -
  let ?prior = "idle_state\<lparr>aa := level_100, gv := level_100\<rparr>"
  have nz: "(1 :: uint8_t) \<noteq> 0" by simp
  have direct: "aa (update_motion_mpu6050_hand vector_zero vector_zero ?prior) =
      \<lparr>vx = 75, vy = 75, vz = 75\<rparr>"
    by (simp add: vector_zero_def level_100_def update_aa smoothing_filter_word
        signed_divide_int_def)
  from C4_enable_resets_filter [OF nz, of ?prior vector_zero vector_zero idle_state]
  have "aa (update_motion_mpu6050_hand vector_zero vector_zero
              (motion_set_mpu6050_hand_mode 1 ?prior)) = vector_zero \<and>
        gv (update_motion_mpu6050_hand vector_zero vector_zero
              (motion_set_mpu6050_hand_mode 1 ?prior)) = vector_zero"
    by blast
  with nz direct show ?thesis by (simp add: vector_zero_def)
qed

text \<open>
  Claim C7. A mode change performs the driver calls of its branch in every case. While
  a binary command is being replayed (\<^verbatim>\<open>inBinPacket\<close>) nothing else happens: no callback
  is invoked and no packet is sent. Otherwise the mode-change event with payload
  \<open>[0, mode]\<close> is offered to the dispatch gate: the callback, if registered, is invoked
  with sensor 0 and the mode, and the packet is sent unless the callback vetoes it. The
  filtered vectors and the Latch are those of the branch alone.
\<close>

theorem C7_mode_event:
  "(inBinPacket s \<longrightarrow>
      new_effects s (motion_set_mpu6050_hand_mode mode s) = mode_hardware_effects mode) \<and>
   (\<not> inBinPacket s \<and> kg_evt_motion_mode s = None \<longrightarrow>
      new_effects s (motion_set_mpu6050_hand_mode mode s) =
        mode_hardware_effects mode @ [Send (motion_mode_event [0, mode])]) \<and>
   (\<not> inBinPacket s \<and> kg_evt_motion_mode s = Some g \<and> g 0 mode = 0 \<longrightarrow>
      new_effects s (motion_set_mpu6050_hand_mode mode s) =
        mode_hardware_effects mode @
          [CallbackMotionMode 0 mode, Send (motion_mode_event [0, mode])]) \<and>
   (\<not> inBinPacket s \<and> kg_evt_motion_mode s = Some g \<and> g 0 mode \<noteq> 0 \<longrightarrow>
      new_effects s (motion_set_mpu6050_hand_mode mode s) =
        mode_hardware_effects mode @ [CallbackMotionMode 0 mode]) \<and>
   aa (motion_set_mpu6050_hand_mode mode s) = aa (set_mode_hardware mode s) \<and>
   gv (motion_set_mpu6050_hand_mode mode s) = gv (set_mode_hardware mode s) \<and>
   mpuHandInterrupt (motion_set_mpu6050_hand_mode mode s) =
     mpuHandInterrupt (set_mode_hardware mode s)"
  by (simp add: new_effects_def set_mode_state
      set_mode_trace_replay set_mode_trace_absent set_mode_trace_pass set_mode_trace_skip)

theorem C7_mode_event_witness:
  "inBinPacket replay_state \<and>
   new_effects replay_state (motion_set_mpu6050_hand_mode 1 replay_state) =
     [AttachInterrupt, SetSleepEnabled False] \<and>
   new_effects idle_state (motion_set_mpu6050_hand_mode 1 idle_state) =
     [AttachInterrupt, SetSleepEnabled False, Send (motion_mode_event [0, 1])] \<and>
   new_effects observed_state (motion_set_mpu6050_hand_mode 1 observed_state) =
     [AttachInterrupt, SetSleepEnabled False, CallbackMotionMode 0 1,
      Send (motion_mode_event [0, 1])] \<and>
   new_effects vetoed_state (motion_set_mpu6050_hand_mode 1 vetoed_state) =
     [AttachInterrupt, SetSleepEnabled False, CallbackMotionMode 0 1] \<and>
   new_effects idle_state (motion_set_mpu6050_hand_mode 0 idle_state) =
     [SetSleepEnabled True, DetachInterrupt, Send (motion_mode_event [0, 0])]"
proof -
  note ex = example_states
  have hw1: "mode_hardware_effects 1 = [AttachInterrupt, SetSleepEnabled False]"
    and hw0: "mode_hardware_effects 0 = [SetSleepEnabled True, DetachInterrupt]"
    by (simp_all add: mode_hardware_effects_def)
  have a: "new_effects replay_state (motion_set_mpu6050_hand_mode 1 replay_state) =
      [AttachInterrupt, SetSleepEnabled False]"
    using C7_mode_event [of replay_state 1 never_skip_mode] ex hw1 by simp
  have b: "new_effects idle_state (motion_set_mpu6050_hand_mode 1 idle_state) =
      [AttachInterrupt, SetSleepEnabled False, Send (motion_mode_event [0, 1])]"
    using C7_mode_event [of idle_state 1 never_skip_mode] ex hw1 by simp
  have c: "new_effects observed_state (motion_set_mpu6050_hand_mode 1 observed_state) =
      [AttachInterrupt, SetSleepEnabled False, CallbackMotionMode 0 1,
       Send (motion_mode_event [0, 1])]"
    using C7_mode_event [of observed_state 1 never_skip_mode] ex hw1
    by (simp add: never_skip_mode_def)
  have d: "new_effects vetoed_state (motion_set_mpu6050_hand_mode 1 vetoed_state) =
      [AttachInterrupt, SetSleepEnabled False, CallbackMotionMode 0 1]"
    using C7_mode_event [of vetoed_state 1 always_skip_mode] ex hw1
    by (simp add: always_skip_mode_def)
  have e: "new_effects idle_state (motion_set_mpu6050_hand_mode 0 idle_state) =
      [SetSleepEnabled True, DetachInterrupt, Send (motion_mode_event [0, 0])]"
    using C7_mode_event [of idle_state 0 never_skip_mode] ex hw0 by simp
  from a b c d e ex show ?thesis by blast
qed

text \<open>
  Claim C10. Every nonzero mode byte enables (filtered vectors zeroed, Latch set,
  interrupt attached, sensor woken), only 0 disables (sensor put to sleep, interrupt
  detached, filtered vectors and Latch untouched), and the event carries the mode byte
  as it was passed, in the payload and in the callback's argument.
\<close>

theorem C10_mode_byte:
  "(mode \<noteq> 0 \<longrightarrow>
      aa (motion_set_mpu6050_hand_mode mode s) = vector_zero \<and>
      gv (motion_set_mpu6050_hand_mode mode s) = vector_zero \<and>
      mpuHandInterrupt (motion_set_mpu6050_hand_mode mode s) \<and>
      take 2 (new_effects s (motion_set_mpu6050_hand_mode mode s)) =
        [AttachInterrupt, SetSleepEnabled False]) \<and>
   (mode = 0 \<longrightarrow>
      aa (motion_set_mpu6050_hand_mode mode s) = aa s \<and>
      gv (motion_set_mpu6050_hand_mode mode s) = gv s \<and>
      mpuHandInterrupt (motion_set_mpu6050_hand_mode mode s) = mpuHandInterrupt s \<and>
      take 2 (new_effects s (motion_set_mpu6050_hand_mode mode s)) =
        [SetSleepEnabled True, DetachInterrupt]) \<and>
   (\<not> inBinPacket s \<and> kg_evt_motion_mode s = None \<longrightarrow>
      drop 2 (new_effects s (motion_set_mpu6050_hand_mode mode s)) =
        [Send (motion_mode_event [0, mode])]) \<and>
   (\<not> inBinPacket s \<and> kg_evt_motion_mode s = Some g \<longrightarrow>
      hd (drop 2 (new_effects s (motion_set_mpu6050_hand_mode mode s))) =
        CallbackMotionMode 0 mode)"
proof -
  have enable: "mode \<noteq> 0 \<longrightarrow>
      aa (motion_set_mpu6050_hand_mode mode s) = vector_zero \<and>
      gv (motion_set_mpu6050_hand_mode mode s) = vector_zero \<and>
      mpuHandInterrupt (motion_set_mpu6050_hand_mode mode s) \<and>
      take 2 (new_effects s (motion_set_mpu6050_hand_mode mode s)) =
        [AttachInterrupt, SetSleepEnabled False]"
    using set_mode_hardware_enable [of mode s]
    by (simp add: set_mode_state set_mode_hardware_first mode_hardware_effects_def)
  have disable: "mode = 0 \<longrightarrow>
      aa (motion_set_mpu6050_hand_mode mode s) = aa s \<and>
      gv (motion_set_mpu6050_hand_mode mode s) = gv s \<and>
      mpuHandInterrupt (motion_set_mpu6050_hand_mode mode s) = mpuHandInterrupt s \<and>
      take 2 (new_effects s (motion_set_mpu6050_hand_mode mode s)) =
        [SetSleepEnabled True, DetachInterrupt]"
    using set_mode_hardware_disable [of s]
    by (simp add: set_mode_state set_mode_hardware_first mode_hardware_effects_def)
  have absent: "\<not> inBinPacket s \<and> kg_evt_motion_mode s = None \<longrightarrow>
      drop 2 (new_effects s (motion_set_mpu6050_hand_mode mode s)) =
        [Send (motion_mode_event [0, mode])]"
    by (simp add: new_effects_def set_mode_trace_absent mode_hardware_effects_length)
  have present: "\<not> inBinPacket s \<and> kg_evt_motion_mode s = Some g \<longrightarrow>
      hd (drop 2 (new_effects s (motion_set_mpu6050_hand_mode mode s))) =
        CallbackMotionMode 0 mode"
    by (cases "g 0 mode = 0")
      (simp_all add: new_effects_def set_mode_trace_pass set_mode_trace_skip mode_hardware_effects_length)
  from enable disable absent present show ?thesis by blast
qed

theorem C10_mode_byte_witness:
  "(2 :: uint8_t) \<noteq> 0 \<and>
   aa (motion_set_mpu6050_hand_mode 2 (idle_state\<lparr>aa := level_100, gv := level_100\<rparr>)) =
     vector_zero \<and>
   mpuHandInterrupt (motion_set_mpu6050_hand_mode 2 idle_state) \<and>
   take 2 (new_effects idle_state (motion_set_mpu6050_hand_mode 2 idle_state)) =
     [AttachInterrupt, SetSleepEnabled False] \<and>
   drop 2 (new_effects idle_state (motion_set_mpu6050_hand_mode 2 idle_state)) =
     [Send (motion_mode_event [0, 2])] \<and>
   hd (drop 2 (new_effects observed_state (motion_set_mpu6050_hand_mode 2 observed_state))) =
     CallbackMotionMode 0 2 \<and>
   take 2 (new_effects idle_state (motion_set_mpu6050_hand_mode 0 idle_state)) =
     [SetSleepEnabled True, DetachInterrupt] \<and>
   \<not> mpuHandInterrupt (motion_set_mpu6050_hand_mode 0 idle_state)"
proof -
  note ex = example_states
  have nz: "(2 :: uint8_t) \<noteq> 0" by simp
  have off: "\<not> mpuHandInterrupt idle_state" by (simp add: idle_state_def)
  from C10_mode_byte [of 2 "idle_state\<lparr>aa := level_100, gv := level_100\<rparr>" never_skip_mode] nz
  have a: "aa (motion_set_mpu6050_hand_mode 2 (idle_state\<lparr>aa := level_100, gv := level_100\<rparr>)) =
      vector_zero"
    by blast
  from C10_mode_byte [of 2 idle_state never_skip_mode] nz ex
  have b: "mpuHandInterrupt (motion_set_mpu6050_hand_mode 2 idle_state) \<and>
      take 2 (new_effects idle_state (motion_set_mpu6050_hand_mode 2 idle_state)) =
        [AttachInterrupt, SetSleepEnabled False] \<and>
      drop 2 (new_effects idle_state (motion_set_mpu6050_hand_mode 2 idle_state)) =
        [Send (motion_mode_event [0, 2])]"
    by blast
  from C10_mode_byte [of 2 observed_state never_skip_mode] ex
  have c: "hd (drop 2 (new_effects observed_state
      (motion_set_mpu6050_hand_mode 2 observed_state))) = CallbackMotionMode 0 2"
    by blast
  from C10_mode_byte [of 0 idle_state never_skip_mode] off
  have d: "take 2 (new_effects idle_state (motion_set_mpu6050_hand_mode 0 idle_state)) =
      [SetSleepEnabled True, DetachInterrupt] \<and>
      \<not> mpuHandInterrupt (motion_set_mpu6050_hand_mode 0 idle_state)"
    by simp
  from nz a b c d show ?thesis by blast
qed

text \<open>
  Claim C9. The update operation and the disabling mode change leave the Latch as it
  is; the interrupt handler and the enabling mode change set it; setup clears it. No
  function of the file clears it after a sample has been processed.
\<close>

theorem C9_latch_writers:
  "mpuHandInterrupt (update_motion_mpu6050_hand ra rg s) = mpuHandInterrupt s \<and>
   mpuHandInterrupt (motion_set_mpu6050_hand_mode 0 s) = mpuHandInterrupt s \<and>
   mpuHandInterrupt (motion_mpu6050_hand_interrupt s) \<and>
   (mode \<noteq> 0 \<longrightarrow> mpuHandInterrupt (motion_set_mpu6050_hand_mode mode s)) \<and>
   \<not> mpuHandInterrupt (setup_motion_mpu6050_hand s)"
  using set_mode_hardware_enable [of mode s]
  by (simp add: update_mpuHandInterrupt set_mode_state set_mode_hardware_disable
      setup_mpuHandInterrupt motion_mpu6050_hand_interrupt_def)

theorem C9_latch_writers_witness:
  "(1 :: uint8_t) \<noteq> 0 \<and>
   mpuHandInterrupt (motion_set_mpu6050_hand_mode 1 idle_state) \<and>
   mpuHandInterrupt
     (update_motion_mpu6050_hand vector_zero vector_zero
        (motion_mpu6050_hand_interrupt idle_state)) \<and>
   \<not> mpuHandInterrupt (motion_set_mpu6050_hand_mode 0 idle_state)"
proof -
  have nz: "(1 :: uint8_t) \<noteq> 0" by simp
  have off: "\<not> mpuHandInterrupt idle_state" by (simp add: idle_state_def)
  from C9_latch_writers [of vector_zero vector_zero idle_state 1] nz off
  have a: "mpuHandInterrupt (motion_set_mpu6050_hand_mode 1 idle_state) \<and>
           \<not> mpuHandInterrupt (motion_set_mpu6050_hand_mode 0 idle_state)"
    by blast
  from C9_latch_writers
    [of vector_zero vector_zero "motion_mpu6050_hand_interrupt idle_state" 1]
  have b: "mpuHandInterrupt
     (update_motion_mpu6050_hand vector_zero vector_zero
        (motion_mpu6050_hand_interrupt idle_state))"
    by (simp add: motion_mpu6050_hand_interrupt_def)
  from nz a b show ?thesis by blast
qed

section \<open>Dispatch of both events\<close>

text \<open>
  Claim C6. For the motion-data event of an update, and for the mode-change event of a
  mode change that is not the replay of a binary command: with no callback registered,
  or with a callback that returns zero, exactly one packet is handed to the transport;
  with a callback that returns a nonzero value, none is.
\<close>

theorem C6_dispatch_gate:
  "(kg_evt_motion_data s = None \<longrightarrow>
      sent (update_motion_mpu6050_hand ra rg s) =
        sent s @ [motion_data_event (new_payload ra rg s)]) \<and>
   (kg_evt_motion_data s = Some f \<and> f 0 3 12 (drop 3 (new_payload ra rg s)) = 0 \<longrightarrow>
      sent (update_motion_mpu6050_hand ra rg s) =
        sent s @ [motion_data_event (new_payload ra rg s)]) \<and>
   (kg_evt_motion_data s = Some f \<and> f 0 3 12 (drop 3 (new_payload ra rg s)) \<noteq> 0 \<longrightarrow>
      sent (update_motion_mpu6050_hand ra rg s) = sent s) \<and>
   (\<not> inBinPacket s \<and> kg_evt_motion_mode s = None \<longrightarrow>
      sent (motion_set_mpu6050_hand_mode mode s) = sent s @ [motion_mode_event [0, mode]]) \<and>
   (\<not> inBinPacket s \<and> kg_evt_motion_mode s = Some g \<and> g 0 mode = 0 \<longrightarrow>
      sent (motion_set_mpu6050_hand_mode mode s) = sent s @ [motion_mode_event [0, mode]]) \<and>
   (\<not> inBinPacket s \<and> kg_evt_motion_mode s = Some g \<and> g 0 mode \<noteq> 0 \<longrightarrow>
      sent (motion_set_mpu6050_hand_mode mode s) = sent s)"
  by (simp add: sent_def sent_packets_append sent_mode_hardware_effects
      update_trace_absent update_trace_pass update_trace_skip
      set_mode_trace_absent set_mode_trace_pass set_mode_trace_skip)

theorem C6_dispatch_gate_witness:
  "kg_evt_motion_data idle_state = None \<and>
   sent (update_motion_mpu6050_hand raw_1000 vector_zero idle_state) =
     [motion_data_event payload_250] \<and>
   kg_evt_motion_data observed_state = Some never_skip_data \<and>
   sent (update_motion_mpu6050_hand raw_1000 vector_zero observed_state) =
     [motion_data_event payload_250] \<and>
   kg_evt_motion_data vetoed_state = Some always_skip_data \<and>
   sent (update_motion_mpu6050_hand raw_1000 vector_zero vetoed_state) = [] \<and>
   sent (motion_set_mpu6050_hand_mode 1 idle_state) = [motion_mode_event [0, 1]] \<and>
   sent (motion_set_mpu6050_hand_mode 1 observed_state) = [motion_mode_event [0, 1]] \<and>
   sent (motion_set_mpu6050_hand_mode 1 vetoed_state) = []"
proof -
  note ex = example_states
  have p1: "new_payload raw_1000 vector_zero idle_state = payload_250"
    and p2: "new_payload raw_1000 vector_zero observed_state = payload_250"
    and p3: "new_payload raw_1000 vector_zero vetoed_state = payload_250"
    using ex by (simp_all add: end_to_end_payload)
  have a: "sent (update_motion_mpu6050_hand raw_1000 vector_zero idle_state) =
      [motion_data_event payload_250]"
    using C6_dispatch_gate [of idle_state raw_1000 vector_zero never_skip_data 1 never_skip_mode]
      ex p1 by simp
  have b: "sent (update_motion_mpu6050_hand raw_1000 vector_zero observed_state) =
      [motion_data_event payload_250]"
    using C6_dispatch_gate
      [of observed_state raw_1000 vector_zero never_skip_data 1 never_skip_mode]
      ex p2 by (simp add: never_skip_data_def)
  have c: "sent (update_motion_mpu6050_hand raw_1000 vector_zero vetoed_state) = []"
    using C6_dispatch_gate
      [of vetoed_state raw_1000 vector_zero always_skip_data 1 always_skip_mode]
      ex p3 by (simp add: always_skip_data_def)
  have d: "sent (motion_set_mpu6050_hand_mode 1 idle_state) = [motion_mode_event [0, 1]]"
    using C6_dispatch_gate [of idle_state raw_1000 vector_zero never_skip_data 1 never_skip_mode]
      ex by simp
  have e: "sent (motion_set_mpu6050_hand_mode 1 observed_state) = [motion_mode_event [0, 1]]"
    using C6_dispatch_gate
      [of observed_state raw_1000 vector_zero never_skip_data 1 never_skip_mode]
      ex by (simp add: never_skip_mode_def)
  have f: "sent (motion_set_mpu6050_hand_mode 1 vetoed_state) = []"
    using C6_dispatch_gate
      [of vetoed_state raw_1000 vector_zero always_skip_data 1 always_skip_mode]
      ex by (simp add: always_skip_mode_def)
  from a b c d e f ex show ?thesis by blast
qed

section \<open>The polling consumer\<close>

text \<open>
  Claim C3. A poll with the Latch false does nothing. A poll with the Latch true runs
  the update exactly once (one sensor read more than before, and the state of one
  update), leaves the Latch false, and a poll that follows with no interrupt in between
  does nothing.
\<close>

theorem C3_poll_latch:
  "(\<not> mpuHandInterrupt s \<longrightarrow> poll ra rg s = s) \<and>
   (mpuHandInterrupt s \<longrightarrow>
      poll ra rg s = (update_motion_mpu6050_hand ra rg s)\<lparr>mpuHandInterrupt := False\<rparr> \<and>
      reads (poll ra rg s) = reads s + 1 \<and>
      \<not> mpuHandInterrupt (poll ra rg s) \<and>
      poll ra' rg' (poll ra rg s) = poll ra rg s)"
proof -
  have upd: "update_motion_mpu6050_hand ra rg (s\<lparr>mpuHandInterrupt := False\<rparr>) =
      (update_motion_mpu6050_hand ra rg s)\<lparr>mpuHandInterrupt := False\<rparr>"
    by (simp add: update_steps Let_def split: option.split)
  have rd: "reads ((update_motion_mpu6050_hand ra rg s)\<lparr>mpuHandInterrupt := False\<rparr>) = reads s + 1"
    using reads_update [of ra rg s] by (simp add: reads_def)
  show ?thesis
    by (simp add: poll_def upd rd)
qed

theorem C3_poll_latch_witness:
  "mpuHandInterrupt (idle_state\<lparr>mpuHandInterrupt := True\<rparr>) \<and>
   \<not> mpuHandInterrupt (poll vector_zero vector_zero (idle_state\<lparr>mpuHandInterrupt := True\<rparr>)) \<and>
   reads (poll vector_zero vector_zero (idle_state\<lparr>mpuHandInterrupt := True\<rparr>)) = 1 \<and>
   \<not> mpuHandInterrupt idle_state \<and>
   poll vector_zero vector_zero idle_state = idle_state"
proof -
  let ?s = "idle_state\<lparr>mpuHandInterrupt := True\<rparr>"
  have on: "mpuHandInterrupt ?s" by simp
  have off: "\<not> mpuHandInterrupt idle_state" by (simp add: idle_state_def)
  have r0: "reads ?s = 0" by (simp add: reads_def idle_state_def)
  from C3_poll_latch [of ?s vector_zero vector_zero vector_zero vector_zero] on
  have a1: "\<not> mpuHandInterrupt (poll vector_zero vector_zero ?s)"
    and a2: "reads (poll vector_zero vector_zero ?s) = reads ?s + 1"
    by blast+
  from a1 a2 r0
  have a: "\<not> mpuHandInterrupt (poll vector_zero vector_zero ?s) \<and>
           reads (poll vector_zero vector_zero ?s) = 1"
    by simp
  from C3_poll_latch [of idle_state vector_zero vector_zero vector_zero vector_zero] off
  have b: "poll vector_zero vector_zero idle_state = idle_state"
    by blast
  from on off a b show ?thesis by blast
qed

section \<open>The filter over consecutive updates\<close>

text \<open>
  Claim C1. The claim is that in every update each axis becomes the previous filtered
  value plus 0.25 times (raw minus previous filtered value), stored as a signed 16-bit
  integer. The code computes this wherever the difference fits into 16 bits (lemma
  \<open>update_filters_when_difference_fits\<close>), but not beyond: with a filtered value of
  20000 and a reading of -20000 the difference -40000 wraps to 25536 and the update
  stores 26384, where the claim asks for 10000. The same happens on a run from the
  enabled state: four full-scale readings bring the axis to 22399, and the reading
  -20000 then moves it to 28183.
\<close>

theorem C1_overflow_step:
  "vx (aa swing_state) = 20000 \<and> vx swing_raw = - 20000 \<and>
   vx (aa (update_motion_mpu6050_hand swing_raw vector_zero swing_state)) = 26384 \<and>
   truncate_toward_zero (ema_spec 20000 (- 20000)) = 10000 \<and>
   \<not> filtered_from (vx (aa (update_motion_mpu6050_hand swing_raw vector_zero swing_state)))
       (vx (aa swing_state)) (vx swing_raw) \<and>
   vx (aa (hold_raw 4 full_scale_raw vector_zero (motion_set_mpu6050_hand_mode 1 idle_state))) =
     22399 \<and>
   vx (aa (update_motion_mpu6050_hand swing_raw vector_zero
             (hold_raw 4 full_scale_raw vector_zero
                (motion_set_mpu6050_hand_mode 1 idle_state)))) = 28183"
proof -
  have st: "vx (aa swing_state) = 20000" "vx swing_raw = - 20000"
    by (simp_all add: swing_state_def swing_raw_def)
  have step: "vx (aa (update_motion_mpu6050_hand swing_raw vector_zero swing_state)) = 26384"
    by (simp add: update_aa st smoothing_filter_word signed_divide_int_def)
  have not_spec: "\<not> filtered_from 26384 20000 (- 20000)"
    by (simp add: filtered_from_def ema_spec_def truncate_toward_zero_def)
  have enabled: "vx (aa (motion_set_mpu6050_hand_mode 1 idle_state)) = 0"
    using set_mode_hardware_enable [of 1 idle_state]
    by (simp add: set_mode_state vector_zero_def)
  have run: "vx (aa (hold_raw 4 full_scale_raw vector_zero
      (motion_set_mpu6050_hand_mode 1 idle_state))) = 22399"
    by (simp add: hold_raw_axes enabled full_scale_raw_def filter_n_full_scale)
  have after: "vx (aa (update_motion_mpu6050_hand swing_raw vector_zero
      (hold_raw 4 full_scale_raw vector_zero (motion_set_mpu6050_hand_mode 1 idle_state)))) =
      28183"
    by (simp add: update_aa run st smoothing_filter_word signed_divide_int_def)
  from st step not_spec run after ema_spec_swing show ?thesis by simp
qed




end
